theory Spec2Isabelle
  imports Main "HOL-Library.Word"
begin

section \<open>The generic XCM decoder of scripts/helpers/decode-xcm-generic.ts\<close>

text \<open>
  The file embeds \<^verbatim>\<open>unwrapVersionedXcm\<close>, \<^verbatim>\<open>classifyInstruction\<close>,
  \<^verbatim>\<open>decodeMessageIntoFragmentVec\<close> and \<^verbatim>\<open>hexToU8aSafe\<close>. The decode capability
  (\<^verbatim>\<open>provider.createType\<close>), the decoded values it returns and the helpers
  \<^verbatim>\<open>isHex\<close> and \<^verbatim>\<open>hexToU8a\<close> belong to the polkadot-js libraries: the provider is a
  parameter of the model, the rest is modelled where it is declared below.
\<close>

subsection \<open>Decoded values\<close>

type_synonym byte = "8 word"

text \<open>
  Modelled from the spec: the instruction type is declared in the polkadot-js type
  registry. An instruction is an opaque tagged value; its tag is inspected through the
  predicates \<^verbatim>\<open>isX\<close>, each true exactly for the tag \<^verbatim>\<open>X\<close>, and it has a generic
  display string.
\<close>

datatype instruction = Instruction (tag: string) (rendering: string)

definition isReserveAssetDeposited :: "instruction \<Rightarrow> bool" where
  "isReserveAssetDeposited instr \<longleftrightarrow> tag instr = ''ReserveAssetDeposited''"

definition isDepositAsset :: "instruction \<Rightarrow> bool" where
  "isDepositAsset instr \<longleftrightarrow> tag instr = ''DepositAsset''"

definition isWithdrawAsset :: "instruction \<Rightarrow> bool" where
  "isWithdrawAsset instr \<longleftrightarrow> tag instr = ''WithdrawAsset''"

definition isBuyExecution :: "instruction \<Rightarrow> bool" where
  "isBuyExecution instr \<longleftrightarrow> tag instr = ''BuyExecution''"

definition isTransact :: "instruction \<Rightarrow> bool" where
  "isTransact instr \<longleftrightarrow> tag instr = ''Transact''"

definition isDescendOrigin :: "instruction \<Rightarrow> bool" where
  "isDescendOrigin instr \<longleftrightarrow> tag instr = ''DescendOrigin''"

definition isSetAppendix :: "instruction \<Rightarrow> bool" where
  "isSetAppendix instr \<longleftrightarrow> tag instr = ''SetAppendix''"

definition isExpectTransactStatus :: "instruction \<Rightarrow> bool" where
  "isExpectTransactStatus instr \<longleftrightarrow> tag instr = ''ExpectTransactStatus''"

definition isReportTransactStatus :: "instruction \<Rightarrow> bool" where
  "isReportTransactStatus instr \<longleftrightarrow> tag instr = ''ReportTransactStatus''"

definition isSetTopic :: "instruction \<Rightarrow> bool" where
  "isSetTopic instr \<longleftrightarrow> tag instr = ''SetTopic''"

definition isClearTopic :: "instruction \<Rightarrow> bool" where
  "isClearTopic instr \<longleftrightarrow> tag instr = ''ClearTopic''"

definition isExchangeAsset :: "instruction \<Rightarrow> bool" where
  "isExchangeAsset instr \<longleftrightarrow> tag instr = ''ExchangeAsset''"

definition isDepositReserveAsset :: "instruction \<Rightarrow> bool" where
  "isDepositReserveAsset instr \<longleftrightarrow> tag instr = ''DepositReserveAsset''"

definition isTransferAsset :: "instruction \<Rightarrow> bool" where
  "isTransferAsset instr \<longleftrightarrow> tag instr = ''TransferAsset''"

definition isTransferReserveAsset :: "instruction \<Rightarrow> bool" where
  "isTransferReserveAsset instr \<longleftrightarrow> tag instr = ''TransferReserveAsset''"

text \<open>
  Modelled from the spec: the payload a version carries is a run-time value that is either
  an instruction sequence itself (an array) or an object that wraps the sequence one
  level. \<^verbatim>\<open>Array.isArray\<close> tells them apart.
\<close>

datatype payload = Vec "instruction list" | Wrapped "instruction list"

fun isArray :: "payload \<Rightarrow> bool" where
  "isArray (Vec xs) = True"
| "isArray (Wrapped xs) = False"

text \<open>
  Modelled from the spec: \<^verbatim>\<open>XcmVersionedXcm\<close> is declared in
  \<^verbatim>\<open>@polkadot/types/lookup\<close>. A decoded message exposes a version discriminant, the
  payload of that version, and its re-encoding to raw bytes (\<^verbatim>\<open>toU8a()\<close>). The predicate
  \<^verbatim>\<open>isVn\<close> holds exactly for the discriminant \<^verbatim>\<open>Vn\<close>; \<^verbatim>\<open>asVn\<close> reads the payload.
\<close>

datatype XcmVersionedXcm =
  XcmVersionedXcm (discriminant: string) (carried: payload) (toU8a: "byte list")

definition isV1 :: "XcmVersionedXcm \<Rightarrow> bool" where
  "isV1 vxcm \<longleftrightarrow> discriminant vxcm = ''V1''"

definition isV2 :: "XcmVersionedXcm \<Rightarrow> bool" where
  "isV2 vxcm \<longleftrightarrow> discriminant vxcm = ''V2''"

definition isV3 :: "XcmVersionedXcm \<Rightarrow> bool" where
  "isV3 vxcm \<longleftrightarrow> discriminant vxcm = ''V3''"

definition isV4 :: "XcmVersionedXcm \<Rightarrow> bool" where
  "isV4 vxcm \<longleftrightarrow> discriminant vxcm = ''V4''"

definition isV5 :: "XcmVersionedXcm \<Rightarrow> bool" where
  "isV5 vxcm \<longleftrightarrow> discriminant vxcm = ''V5''"

definition asV1 :: "XcmVersionedXcm \<Rightarrow> payload" where
  "asV1 vxcm = carried vxcm"

definition asV2 :: "XcmVersionedXcm \<Rightarrow> payload" where
  "asV2 vxcm = carried vxcm"

definition asV3 :: "XcmVersionedXcm \<Rightarrow> payload" where
  "asV3 vxcm = carried vxcm"

definition asV4 :: "XcmVersionedXcm \<Rightarrow> payload" where
  "asV4 vxcm = carried vxcm"

definition asV5 :: "XcmVersionedXcm \<Rightarrow> payload" where
  "asV5 vxcm = carried vxcm"

subsection \<open>unwrapVersionedXcm (lines 41-59)\<close>

text \<open>
  The function returns an object with a version label and the instructions. The casts
  \<^verbatim>\<open>as any[]\<close> are erased at run time, so \<^verbatim>\<open>instructions\<close> holds whatever value the
  accessor returned.
\<close>

record unwrapped =
  version :: string
  instructions :: payload

definition unwrapVersionedXcm :: "XcmVersionedXcm \<Rightarrow> unwrapped" where
  "unwrapVersionedXcm vxcm =
    (if isV5 vxcm then \<lparr>version = ''V5'', instructions = asV5 vxcm\<rparr>
     else if isV4 vxcm then \<lparr>version = ''V4'', instructions = asV4 vxcm\<rparr>
     else if isV3 vxcm then \<lparr>version = ''V3'', instructions = asV3 vxcm\<rparr>
     else if isV2 vxcm then \<lparr>version = ''V2'', instructions = asV2 vxcm\<rparr>
     else if isV1 vxcm then
       (let v1 = asV1 vxcm
        in \<lparr>version = ''V1'', instructions = (if isArray v1 then v1 else v1)\<rparr>)
     else \<lparr>version = ''V5'', instructions = Vec []\<rparr>)"

subsection \<open>classifyInstruction (lines 66-88)\<close>

definition classifyInstruction :: "instruction \<Rightarrow> string option" where
  "classifyInstruction instr =
    (if isReserveAssetDeposited instr then Some ''Reserve Asset Deposited''
     else if isDepositAsset instr then Some ''Deposit Asset''
     else if isWithdrawAsset instr then Some ''Withdraw Asset''
     else if isBuyExecution instr then Some ''Buy Execution''
     else if isTransact instr then Some ''Transact''
     else if isDescendOrigin instr then Some ''Descend Origin''
     else if isSetAppendix instr then Some ''Set Appendix''
     else if isExpectTransactStatus instr then Some ''Expect Transact Status''
     else if isReportTransactStatus instr then Some ''Report Transact Status''
     else if isSetTopic instr then Some ''Set Topic''
     else if isClearTopic instr then Some ''Clear Topic''
     else if isExchangeAsset instr then Some ''Exchange Asset''
     else if isDepositReserveAsset instr then Some ''Deposit Reserve Asset''
     else if isTransferAsset instr then Some ''Transfer Asset''
     else if isTransferReserveAsset instr then Some ''Transfer Reserve Asset''
     else None)"

text \<open>
  The table of section 4.4 of the specification, in probing order, as (tag predicate,
  label) pairs, and the first-match scan over it. These two follow the specification's
  words and are compared with \<^const>\<open>classifyInstruction\<close> below.
\<close>

definition classificationTable :: "((instruction \<Rightarrow> bool) \<times> string) list" where
  "classificationTable =
    [(isReserveAssetDeposited, ''Reserve Asset Deposited''),
     (isDepositAsset, ''Deposit Asset''),
     (isWithdrawAsset, ''Withdraw Asset''),
     (isBuyExecution, ''Buy Execution''),
     (isTransact, ''Transact''),
     (isDescendOrigin, ''Descend Origin''),
     (isSetAppendix, ''Set Appendix''),
     (isExpectTransactStatus, ''Expect Transact Status''),
     (isReportTransactStatus, ''Report Transact Status''),
     (isSetTopic, ''Set Topic''),
     (isClearTopic, ''Clear Topic''),
     (isExchangeAsset, ''Exchange Asset''),
     (isDepositReserveAsset, ''Deposit Reserve Asset''),
     (isTransferAsset, ''Transfer Asset''),
     (isTransferReserveAsset, ''Transfer Reserve Asset'')]"

definition tableTags :: "string list" where
  "tableTags =
    [''ReserveAssetDeposited'', ''DepositAsset'', ''WithdrawAsset'', ''BuyExecution'',
     ''Transact'', ''DescendOrigin'', ''SetAppendix'', ''ExpectTransactStatus'',
     ''ReportTransactStatus'', ''SetTopic'', ''ClearTopic'', ''ExchangeAsset'',
     ''DepositReserveAsset'', ''TransferAsset'', ''TransferReserveAsset'']"

fun firstMatch :: "(('a \<Rightarrow> bool) \<times> 'b) list \<Rightarrow> 'a \<Rightarrow> 'b option" where
  "firstMatch [] x = None"
| "firstMatch ((p, l) # entries) x = (if p x then Some l else firstMatch entries x)"

subsection \<open>Buffers, the decode capability and observable effects\<close>

text \<open>
  A \<^verbatim>\<open>Uint8Array\<close> is an object on the heap: a variable holds a reference to it, and
  two variables may hold the same reference. The world records the bytes of every buffer
  (\<open>cells\<close>), the next unused reference (\<open>fresh\<close>), the calls made to
  \<^verbatim>\<open>provider.createType\<close> in order, each with the schema name and the bytes passed
  (\<open>calls\<close>), and the lines written with \<^verbatim>\<open>console.error\<close> (\<open>console\<close>).
\<close>

type_synonym ref = nat

record world =
  cells :: "ref \<Rightarrow> byte list"
  fresh :: ref
  calls :: "(string \<times> byte list) list"
  console :: "string list"

text \<open>Creating a buffer: it gets the next unused reference.\<close>

definition alloc :: "byte list \<Rightarrow> world \<Rightarrow> ref \<times> world" where
  "alloc bs w = (fresh w, w\<lparr>cells := (cells w)(fresh w := bs), fresh := Suc (fresh w)\<rparr>)"

text \<open>
  \<^verbatim>\<open>Uint8Array.prototype.slice(begin)\<close> copies the bytes from \<open>begin\<close> to the end into
  a new buffer (empty when \<open>begin\<close> is at or past the end) and leaves its receiver as
  it is.
\<close>

definition u8aSlice :: "ref \<Rightarrow> nat \<Rightarrow> world \<Rightarrow> ref \<times> world" where
  "u8aSlice r begin w = alloc (drop begin (cells w r)) w"

text \<open>
  A value caught by \<^verbatim>\<open>catch (e: any)\<close>: all the code reads of it is
  \<^verbatim>\<open>e?.message\<close>, which is absent (\<open>None\<close>) when the value is null or undefined or
  has no message.
\<close>

datatype thrown = Thrown (message: "string option")

text \<open>
  The decode capability. \<^verbatim>\<open>provider.createType(schema, bytes)\<close> returns a decoded
  message or throws; it is deterministic and has no effect of its own, so it is a function
  of the schema name and the bytes of the buffer it is given.
\<close>

record provider =
  createType :: "string \<Rightarrow> byte list \<Rightarrow> thrown + XcmVersionedXcm"

definition callCreateType ::
  "provider \<Rightarrow> string \<Rightarrow> ref \<Rightarrow> world \<Rightarrow> (thrown + XcmVersionedXcm) \<times> world" where
  "callCreateType P schema r w =
    (createType P schema (cells w r), w\<lparr>calls := calls w @ [(schema, cells w r)]\<rparr>)"

definition consoleError :: "string \<Rightarrow> world \<Rightarrow> world" where
  "consoleError line w = w\<lparr>console := console w @ [line]\<rparr>"

subsection \<open>The type resolver: the try/catch of lines 109-118\<close>

text \<open>
  \<^verbatim>\<open>e2?.message ?? e1?.message ?? "Failed to decode XcmVersionedXcm"\<close>: the first of the
  three that is present.
\<close>

definition failureMessage :: "thrown \<Rightarrow> thrown \<Rightarrow> string" where
  "failureMessage e1 e2 =
    (case message e2 of
       Some m \<Rightarrow> m
     | None \<Rightarrow> (case message e1 of
         Some m \<Rightarrow> m
       | None \<Rightarrow> ''Failed to decode XcmVersionedXcm''))"

text \<open>
  The result is the fragment, or \<open>None\<close> when both attempts threw; in that case the
  message has been written to the console and the loop will \<^verbatim>\<open>break\<close>.
\<close>

definition tryCreateType :: "provider \<Rightarrow> ref \<Rightarrow> world \<Rightarrow> XcmVersionedXcm option \<times> world" where
  "tryCreateType P remaining w =
    (case callCreateType P ''XcmVersionedXcm'' remaining w of
       (Inr fragment, w1) \<Rightarrow> (Some fragment, w1)
     | (Inl e1, w1) \<Rightarrow>
         (case callCreateType P ''StagingXcmVersionedXcm'' remaining w1 of
            (Inr fragment, w2) \<Rightarrow> (Some fragment, w2)
          | (Inl e2, w2) \<Rightarrow> (None, consoleError (failureMessage e1 e2) w2)))"

subsection \<open>The splitter loop (lines 106-123)\<close>

text \<open>
  One execution of the loop body, entered with a non-empty \<open>remaining\<close>. It either
  leaves the loop (\<open>Break\<close>) or ends with a fragment pushed and \<open>remaining\<close> bound to
  the slice (\<open>Continue\<close>). Of \<^verbatim>\<open>consumed\<close> only the length is used.
\<close>

datatype 'a flow = Continue 'a | Break 'a

type_synonym locals = "XcmVersionedXcm list \<times> ref \<times> world"

definition loopBody :: "provider \<Rightarrow> XcmVersionedXcm list \<Rightarrow> ref \<Rightarrow> world \<Rightarrow> locals flow" where
  "loopBody P fragments remaining w =
    (case tryCreateType P remaining w of
       (None, w1) \<Rightarrow> Break (fragments, remaining, w1)
     | (Some fragment, w1) \<Rightarrow>
         (let consumed = toU8a fragment;
              (remaining', w2) = u8aSlice remaining (length consumed) w1
          in Continue (fragments @ [fragment], remaining', w2)))"

text \<open>
  The loop returns its variables as they are when it is left; it is left when
  \<^verbatim>\<open>remaining.length\<close> is 0 or by \<^verbatim>\<open>break\<close>. A loop that is never left has the value
  \<open>None\<close>.
\<close>

partial_function (option) splitLoop ::
  "provider \<Rightarrow> XcmVersionedXcm list \<Rightarrow> ref \<Rightarrow> world \<Rightarrow> locals option" where
  "splitLoop P fragments remaining w =
    (if length (cells w remaining) \<noteq> 0 then
       (case loopBody P fragments remaining w of
          Break out \<Rightarrow> Some out
        | Continue (fragments', remaining', w') \<Rightarrow> splitLoop P fragments' remaining' w')
     else Some (fragments, remaining, w))"

subsection \<open>Hex input (lines 132-137)\<close>

text \<open>
  Modelled from the spec: \<^verbatim>\<open>isHex\<close> of \<^verbatim>\<open>@polkadot/util\<close>. The strict hex format is
  an optional \<^verbatim>\<open>0x\<close> prefix, all remaining characters hex digits, and an even digit
  count.
\<close>

definition isHexDigit :: "char \<Rightarrow> bool" where
  "isHexDigit c \<longleftrightarrow> c \<in> set ''0123456789abcdefABCDEF''"

fun digitsOf :: "string \<Rightarrow> string" where
  "digitsOf (a # b # rest) = (if a = CHR ''0'' \<and> b = CHR ''x'' then rest else a # b # rest)"
| "digitsOf s = s"

definition isHex :: "string \<Rightarrow> bool" where
  "isHex input \<longleftrightarrow> list_all isHexDigit (digitsOf input) \<and> even (length (digitsOf input))"

text \<open>
  Modelled from the spec: \<^verbatim>\<open>hexToU8a\<close> of \<^verbatim>\<open>@polkadot/util\<close> builds the byte
  sequence of a validated hex string: one byte for each pair of digits after the prefix.
\<close>

definition hexValue :: "char \<Rightarrow> nat" where
  "hexValue c =
    (if c \<in> set ''0123456789'' then of_char c - 48
     else if c \<in> set ''abcdef'' then of_char c - 87
     else of_char c - 55)"

fun hexPairs :: "string \<Rightarrow> byte list" where
  "hexPairs (a # b # rest) = of_nat (16 * hexValue a + hexValue b) # hexPairs rest"
| "hexPairs s = []"

definition hexToU8a :: "string \<Rightarrow> byte list" where
  "hexToU8a input = hexPairs (digitsOf input)"

datatype error = Error string

definition hexToU8aSafe :: "string \<Rightarrow> error + byte list" where
  "hexToU8aSafe input =
    (if \<not> isHex input then Inl (Error ''Expected hex string for message input'')
     else Inr (hexToU8a input))"

subsection \<open>decodeMessageIntoFragmentVec (lines 94-126)\<close>

text \<open>
  The message is a \<^verbatim>\<open>Uint8Array\<close> of the caller (a reference into the caller's world)
  or a string. The result is the thrown error or the returned array of fragments, with
  the world as the call leaves it; \<open>None\<close> when the call never returns.
\<close>

datatype rawMessage = U8a ref | Str string

text \<open>Lines 103-125: the loop over the buffer \<open>bytes\<close> and the return of the fragments.\<close>

definition splitBytes ::
  "provider \<Rightarrow> ref \<Rightarrow> world \<Rightarrow> ((error + XcmVersionedXcm list) \<times> world) option" where
  "splitBytes P bytes w =
    (case splitLoop P [] bytes w of
       None \<Rightarrow> None
     | Some (fragments, remaining, w') \<Rightarrow> Some (Inr fragments, w'))"

definition decodeMessageIntoFragmentVec ::
  "provider \<Rightarrow> rawMessage \<Rightarrow> world \<Rightarrow> ((error + XcmVersionedXcm list) \<times> world) option" where
  "decodeMessageIntoFragmentVec P msg w =
    (case msg of
       Str input \<Rightarrow>
         (case hexToU8aSafe input of
            Inl e \<Rightarrow> Some (Inl e, w)
          | Inr bs \<Rightarrow> (let (bytes, w0) = alloc bs w in splitBytes P bytes w0))
     | U8a bytes \<Rightarrow> splitBytes P bytes w)"

subsection \<open>Notions used to state the properties\<close>

text \<open>
  The value the type resolver yields on given bytes, the world aside: the primary
  schema's message, else the fallback's, else nothing.
\<close>

definition resolve :: "provider \<Rightarrow> byte list \<Rightarrow> XcmVersionedXcm option" where
  "resolve P bs =
    (case createType P ''XcmVersionedXcm'' bs of
       Inr fragment \<Rightarrow> Some fragment
     | Inl e1 \<Rightarrow> (case createType P ''StagingXcmVersionedXcm'' bs of
         Inr fragment \<Rightarrow> Some fragment
       | Inl e2 \<Rightarrow> None))"

text \<open>
  A decode capability makes progress when every message the resolver obtains from it
  re-encodes to at least one byte.
\<close>

definition makesProgress :: "provider \<Rightarrow> bool" where
  "makesProgress P \<longleftrightarrow>
    (\<forall>bs fragment. resolve P bs = Some fragment \<longrightarrow> toU8a fragment \<noteq> [])"


text \<open>The calls to the decode capability made between two worlds.\<close>

definition newCalls :: "world \<Rightarrow> world \<Rightarrow> (string \<times> byte list) list" where
  "newCalls w w' = drop (length (calls w)) (calls w')"

subsection \<open>Decode capabilities and worlds for concrete runs\<close>

text \<open>A world of a caller who holds one buffer, at reference 0.\<close>

definition callerWorld :: "byte list \<Rightarrow> world" where
  "callerWorld bs = \<lparr>cells = (\<lambda>r. []) (0 := bs), fresh = 1, calls = [], console = []\<rparr>"

text \<open>A V5 message with no instructions and the given re-encoding.\<close>

definition bareV5 :: "byte list \<Rightarrow> XcmVersionedXcm" where
  "bareV5 bs = XcmVersionedXcm ''V5'' (Vec []) bs"

text \<open>Every message is one byte long and decodes under the primary schema.\<close>

definition oneByteProvider :: provider where
  "oneByteProvider =
    \<lparr>createType = (\<lambda>schema bs.
       case bs of
         [] \<Rightarrow> Inl (Thrown (Some ''no bytes''))
       | b # rest \<Rightarrow> Inr (bareV5 [b]))\<rparr>"

text \<open>The same messages, known under the staging name only.\<close>

definition stagingProvider :: provider where
  "stagingProvider =
    \<lparr>createType = (\<lambda>schema bs.
       if schema = ''StagingXcmVersionedXcm'' then
         (case bs of
            [] \<Rightarrow> Inl (Thrown (Some ''no bytes''))
          | b # rest \<Rightarrow>
              if b = 255 then Inl (Thrown None) else Inr (bareV5 [b]))
       else Inl (Thrown (Some ''unknown type'')))\<rparr>"

text \<open>A capability that reads the whole buffer as one message.\<close>

definition greedyProvider :: provider where
  "greedyProvider = \<lparr>createType = (\<lambda>schema bs. Inr (bareV5 bs))\<rparr>"

text \<open>A capability whose messages re-encode to no bytes at all.\<close>

definition stuckProvider :: provider where
  "stuckProvider = \<lparr>createType = (\<lambda>schema bs. Inr (bareV5 []))\<rparr>"

text \<open>
  A capability on which both attempts throw, whatever the bytes: the primary attempt
  throws \<open>e1\<close>, the fallback attempt throws \<open>e2\<close>.
\<close>

definition throwingProvider :: "thrown \<Rightarrow> thrown \<Rightarrow> provider" where
  "throwingProvider e1 e2 =
    \<lparr>createType = (\<lambda>schema bs. if schema = ''XcmVersionedXcm'' then Inl e1 else Inl e2)\<rparr>"

text \<open>
  Two errors of the kind the decode capability raises: one about the bytes, one about
  the schema name.
\<close>

definition enumIndexError :: thrown where
  "enumIndexError = Thrown (Some ''Unable to create Enum via index 9'')"

definition unknownTypeError :: thrown where
  "unknownTypeError = Thrown (Some ''Cannot construct unknown type StagingXcmVersionedXcm'')"

subsection \<open>Basic facts\<close>

lemmas instruction_predicates =
  isReserveAssetDeposited_def isDepositAsset_def isWithdrawAsset_def isBuyExecution_def
  isTransact_def isDescendOrigin_def isSetAppendix_def isExpectTransactStatus_def
  isReportTransactStatus_def isSetTopic_def isClearTopic_def isExchangeAsset_def
  isDepositReserveAsset_def isTransferAsset_def isTransferReserveAsset_def

lemmas version_accessors =
  isV1_def isV2_def isV3_def isV4_def isV5_def asV1_def asV2_def asV3_def asV4_def asV5_def

lemma fst_tryCreateType: "fst (tryCreateType P r w) = resolve P (cells w r)"
  by (simp add: tryCreateType_def callCreateType_def resolve_def split: sum.splits)

lemma cells_tryCreateType: "cells (snd (tryCreateType P r w)) = cells w"
  by (simp add: tryCreateType_def callCreateType_def consoleError_def split: sum.splits)

lemma fresh_tryCreateType: "fresh (snd (tryCreateType P r w)) = fresh w"
  by (simp add: tryCreateType_def callCreateType_def consoleError_def split: sum.splits)

lemma loopBody_None:
  "resolve P (cells w r) = None \<Longrightarrow> loopBody P fs r w = Break (fs, r, snd (tryCreateType P r w))"
  using fst_tryCreateType [of P r w]
  by (cases "tryCreateType P r w") (simp add: loopBody_def)

lemma loopBody_Some:
  "resolve P (cells w r) = Some f \<Longrightarrow>
   loopBody P fs r w =
     Continue (fs @ [f], fresh w, snd (u8aSlice r (length (toU8a f)) (snd (tryCreateType P r w))))"
  using fst_tryCreateType [of P r w] fresh_tryCreateType [of P r w]
  by (cases "tryCreateType P r w") (simp add: loopBody_def u8aSlice_def alloc_def)

text \<open>The world after a successful iteration.\<close>

lemma cells_after:
  "cells (snd (u8aSlice r n (snd (tryCreateType P r w)))) = (cells w)(fresh w := drop n (cells w r))"
  by (simp add: u8aSlice_def alloc_def cells_tryCreateType fresh_tryCreateType)

lemma fresh_after:
  "fresh (snd (u8aSlice r n (snd (tryCreateType P r w)))) = Suc (fresh w)"
  by (simp add: u8aSlice_def alloc_def fresh_tryCreateType)

lemma splitLoop_empty: "cells w r = [] \<Longrightarrow> splitLoop P fs r w = Some (fs, r, w)"
  by (subst splitLoop.simps) simp

lemma splitLoop_break:
  "cells w r \<noteq> [] \<Longrightarrow> resolve P (cells w r) = None \<Longrightarrow>
   splitLoop P fs r w = Some (fs, r, snd (tryCreateType P r w))"
  by (subst splitLoop.simps) (simp add: loopBody_None)

lemma splitLoop_continue:
  "cells w r \<noteq> [] \<Longrightarrow> resolve P (cells w r) = Some f \<Longrightarrow>
   splitLoop P fs r w =
   splitLoop P (fs @ [f]) (fresh w) (snd (u8aSlice r (length (toU8a f)) (snd (tryCreateType P r w))))"
  by (subst splitLoop.simps) (simp add: loopBody_Some)

lemma splitLoop_rule:
  assumes run: "splitLoop P fs r w = Some (fs', r', w')"
    and empty: "\<And>fs r w. cells w r = [] \<Longrightarrow> Q fs r w fs r w"
    and break: "\<And>fs r w. cells w r \<noteq> [] \<Longrightarrow> resolve P (cells w r) = None \<Longrightarrow>
                Q fs r w fs r (snd (tryCreateType P r w))"
    and continue: "\<And>fs r w f fs' r' w'. cells w r \<noteq> [] \<Longrightarrow> resolve P (cells w r) = Some f \<Longrightarrow>
                Q (fs @ [f]) (fresh w)
                  (snd (u8aSlice r (length (toU8a f)) (snd (tryCreateType P r w)))) fs' r' w' \<Longrightarrow>
                Q fs r w fs' r' w'"
  shows "Q fs r w fs' r' w'"
proof -
  define R where "R = (\<lambda>x out. fst (fst (fst x)) = P \<longrightarrow>
    Q (snd (fst (fst x))) (snd (fst x)) (snd x) (fst out) (fst (snd out)) (snd (snd out)))"
  have "R (((P, fs), r), w) (fs', r', w')"
  proof (rule splitLoop.raw_induct [where Pa = R, OF _ run], goal_cases)
    case (1 loop P' fs r w out)
    have "Q fs r w (fst out) (fst (snd out)) (snd (snd out))" if P': "P' = P"
    proof (cases "cells w r = []")
      case True
      with 1(2) empty [of w r fs] show ?thesis by auto
    next
      case False
      show ?thesis
      proof (cases "resolve P (cells w r)")
        case None
        with False 1(2) P' break [of w r fs] show ?thesis
          by (auto simp add: loopBody_None)
      next
        case (Some f)
        with False 1(2) P' have "loop P (fs @ [f]) (fresh w)
            (snd (u8aSlice r (length (toU8a f)) (snd (tryCreateType P r w)))) = Some out"
          by (simp add: loopBody_Some)
        from 1(1) [OF this] have "Q (fs @ [f]) (fresh w)
            (snd (u8aSlice r (length (toU8a f)) (snd (tryCreateType P r w))))
            (fst out) (fst (snd out)) (snd (snd out))"
          by (simp add: R_def)
        with False Some show ?thesis by (rule continue)
      qed
    qed
    then show ?case by (simp add: R_def)
  qed
  then show ?thesis by (simp add: R_def)
qed

lemma splitLoop_terminates:
  assumes "makesProgress P"
  shows "\<exists>out. splitLoop P fs r w = Some out"
proof (induction "length (cells w r)" arbitrary: fs r w rule: less_induct)
  case less
  show ?case
  proof (cases "cells w r = []")
    case True
    then show ?thesis by (simp add: splitLoop_empty)
  next
    case False
    show ?thesis
    proof (cases "resolve P (cells w r)")
      case None
      with False show ?thesis by (simp add: splitLoop_break)
    next
      case (Some f)
      with assms have "toU8a f \<noteq> []"
        unfolding makesProgress_def by blast
      with False have "length (drop (length (toU8a f)) (cells w r)) < length (cells w r)"
        by (cases "toU8a f") auto
      then have "\<exists>out. splitLoop P (fs @ [f]) (fresh w)
          (snd (u8aSlice r (length (toU8a f)) (snd (tryCreateType P r w)))) = Some out"
        by (intro less) (simp add: cells_after)
      with False Some show ?thesis by (simp add: splitLoop_continue)
    qed
  qed
qed


lemma splitLoop_frame:
  assumes "splitLoop P fs r w = Some (fs', r', w')"
  shows "fresh w \<le> fresh w' \<and> (\<forall>q < fresh w. cells w' q = cells w q)"
  using assms
  by (rule splitLoop_rule [where Q = "\<lambda>fs r w fs' r' w'. fresh w \<le> fresh w'
        \<and> (\<forall>q < fresh w. cells w' q = cells w q)"])
     (simp_all add: cells_tryCreateType fresh_tryCreateType cells_after fresh_after)



lemma callerWorld_simps [simp]:
  "cells (callerWorld bs) 0 = bs" "fresh (callerWorld bs) = 1"
  "calls (callerWorld bs) = []" "console (callerWorld bs) = []"
  by (simp_all add: callerWorld_def)

lemma createType_oneByteProvider [simp]:
  "createType oneByteProvider schema [] = Inl (Thrown (Some ''no bytes''))"
  "createType oneByteProvider schema (b # bs) = Inr (bareV5 [b])"
  by (simp_all add: oneByteProvider_def)

lemma createType_stagingProvider [simp]:
  "createType stagingProvider ''XcmVersionedXcm'' bs = Inl (Thrown (Some ''unknown type''))"
  "createType stagingProvider ''StagingXcmVersionedXcm'' [] = Inl (Thrown (Some ''no bytes''))"
  "createType stagingProvider ''StagingXcmVersionedXcm'' (b # bs) =
     (if b = 255 then Inl (Thrown None) else Inr (bareV5 [b]))"
  by (simp_all add: stagingProvider_def)

lemma createType_greedyProvider [simp]:
  "createType greedyProvider schema bs = Inr (bareV5 bs)"
  by (simp add: greedyProvider_def)

lemma createType_stuckProvider [simp]:
  "createType stuckProvider schema bs = Inr (bareV5 [])"
  by (simp add: stuckProvider_def)

lemma createType_throwingProvider [simp]:
  "createType (throwingProvider e1 e2) ''XcmVersionedXcm'' bs = Inl e1"
  "createType (throwingProvider e1 e2) ''StagingXcmVersionedXcm'' bs = Inl e2"
  by (simp_all add: throwingProvider_def)

lemma toU8a_bareV5 [simp]: "toU8a (bareV5 bs) = bs"
  by (simp add: bareV5_def)

lemma decode_U8a:
  "decodeMessageIntoFragmentVec P (U8a r) w =
     (case splitLoop P [] r w of
        None \<Rightarrow> None
      | Some (fragments, remaining, w') \<Rightarrow> Some (Inr fragments, w'))"
  by (simp add: decodeMessageIntoFragmentVec_def splitBytes_def)

lemma resolve_simps [simp]:
  "resolve oneByteProvider [] = None"
  "resolve oneByteProvider (b # bs) = Some (bareV5 [b])"
  "resolve stagingProvider [] = None"
  "resolve stagingProvider (b # bs) = (if b = 255 then None else Some (bareV5 [b]))"
  "resolve greedyProvider bs = Some (bareV5 bs)"
  "resolve stuckProvider bs = Some (bareV5 [])"
  by (simp_all add: resolve_def)

lemma makesProgress_oneByteProvider: "makesProgress oneByteProvider"
  unfolding makesProgress_def
proof (intro allI impI)
  fix bs f
  assume "resolve oneByteProvider bs = Some f"
  then show "toU8a f \<noteq> []" by (cases bs) auto
qed


text \<open>A run over a buffer that holds one fragment and nothing else.\<close>

lemma single_fragment_run:
  assumes "cells w r = b" and "b \<noteq> []" and "resolve P b = Some f" and "toU8a f = b"
  shows "loopBody P fs r w =
           Continue (fs @ [f], fresh w, snd (u8aSlice r (length b) (snd (tryCreateType P r w))))"
    and "cells (snd (u8aSlice r (length b) (snd (tryCreateType P r w)))) (fresh w) = []"
    and "splitLoop P fs r w =
           Some (fs @ [f], fresh w, snd (u8aSlice r (length b) (snd (tryCreateType P r w))))"
proof -
  let ?w' = "snd (u8aSlice r (length b) (snd (tryCreateType P r w)))"
  from assms show body: "loopBody P fs r w = Continue (fs @ [f], fresh w, ?w')"
    by (simp add: loopBody_Some)
  from assms show empty: "cells ?w' (fresh w) = []"
    by (simp add: cells_after)
  from assms have "splitLoop P fs r w = splitLoop P (fs @ [f]) (fresh w) ?w'"
    by (simp add: splitLoop_continue)
  with empty show "splitLoop P fs r w = Some (fs @ [f], fresh w, ?w')"
    by (simp add: splitLoop_empty)
qed

lemma two_fragment_run:
  assumes "cells w r = a @ b" and "a \<noteq> []" and "b \<noteq> []"
    and "resolve P (a @ b) = Some fa" and "toU8a fa = a"
    and "resolve P b = Some fb" and "toU8a fb = b"
  shows "\<exists>r' w'. splitLoop P fs r w = Some (fs @ [fa, fb], r', w')"
proof -
  let ?w1 = "snd (u8aSlice r (length (toU8a fa)) (snd (tryCreateType P r w)))"
  from assms have first: "splitLoop P fs r w = splitLoop P (fs @ [fa]) (fresh w) ?w1"
    by (simp add: splitLoop_continue)
  from assms have "cells ?w1 (fresh w) = b"
    by (simp add: cells_after)
  from single_fragment_run(3) [OF this assms(3) assms(6) assms(7), of "fs @ [fa]"] first
  show ?thesis by simp
qed



lemma isHex_examples:
  "\<not> isHex ''0x123''" "\<not> isHex ''0x12zz''" "isHex ''0x0102''" "isHex ''beef''"
  by (simp_all add: isHex_def isHexDigit_def)

lemma hexToU8a_example: "hexToU8a ''0x01ff'' = [1, 255]"
  by (simp add: hexToU8a_def hexValue_def)

section \<open>The version unwrapper\<close>

text \<open>
  C3. A message whose discriminant is none of V1 to V5 unwraps to the version label
  \<open>V5\<close> with an empty instruction sequence; the function has no error result, so
  nothing is thrown. A message with discriminant V2 that carries the instruction
  sequence \<open>xs\<close> unwraps to the label \<open>V2\<close> with the same sequence \<open>xs\<close>: the same
  instructions, in the same order.
\<close>

theorem unwrapVersionedXcm_fallback_and_V2:
  "(discriminant vxcm \<notin> {''V1'', ''V2'', ''V3'', ''V4'', ''V5''} \<longrightarrow>
      unwrapVersionedXcm vxcm = \<lparr>version = ''V5'', instructions = Vec []\<rparr>)
   \<and> (discriminant vxcm = ''V2'' \<and> carried vxcm = Vec xs \<longrightarrow>
      unwrapVersionedXcm vxcm = \<lparr>version = ''V2'', instructions = Vec xs\<rparr>)"
  by (simp add: unwrapVersionedXcm_def version_accessors)

theorem unwrapVersionedXcm_fallback_and_V2_witness:
  "unwrapVersionedXcm (XcmVersionedXcm ''V6'' (Vec [Instruction ''ClearOrigin'' ''null'']) [6, 4, 10])
     = \<lparr>version = ''V5'', instructions = Vec []\<rparr>
   \<and> unwrapVersionedXcm (XcmVersionedXcm ''V2''
         (Vec [Instruction ''WithdrawAsset'' ''x'', Instruction ''BuyExecution'' ''y'']) [2, 8, 0, 19])
     = \<lparr>version = ''V2'',
        instructions = Vec [Instruction ''WithdrawAsset'' ''x'', Instruction ''BuyExecution'' ''y'']\<rparr>"
  using unwrapVersionedXcm_fallback_and_V2
      [of "XcmVersionedXcm ''V6'' (Vec [Instruction ''ClearOrigin'' ''null'']) [6, 4, 10]"]
    unwrapVersionedXcm_fallback_and_V2
      [of "XcmVersionedXcm ''V2''
         (Vec [Instruction ''WithdrawAsset'' ''x'', Instruction ''BuyExecution'' ''y'']) [2, 8, 0, 19]"
        "[Instruction ''WithdrawAsset'' ''x'', Instruction ''BuyExecution'' ''y'']"]
  by simp

text \<open>
  C4. The V1 branch tests \<^verbatim>\<open>Array.isArray(v1)\<close>, but both arms of the conditional are
  \<^verbatim>\<open>v1\<close> itself (the cast \<^verbatim>\<open>v1 as any[]\<close> does nothing at run time). A payload that
  wraps the sequence one level is therefore returned as the wrapper, not as the inner
  sequence: the evaluation below shows it for a wrapper around two instructions.
\<close>

theorem unwrapVersionedXcm_V1_wrapped_kept:
  "unwrapVersionedXcm (XcmVersionedXcm ''V1''
      (Wrapped [Instruction ''WithdrawAsset'' ''x'', Instruction ''DepositAsset'' ''y'']) [1, 0])
     = \<lparr>version = ''V1'',
        instructions = Wrapped [Instruction ''WithdrawAsset'' ''x'', Instruction ''DepositAsset'' ''y'']\<rparr>
   \<and> instructions (unwrapVersionedXcm (XcmVersionedXcm ''V1''
      (Wrapped [Instruction ''WithdrawAsset'' ''x'', Instruction ''DepositAsset'' ''y'']) [1, 0]))
     \<noteq> Vec [Instruction ''WithdrawAsset'' ''x'', Instruction ''DepositAsset'' ''y'']"
  by (simp add: unwrapVersionedXcm_def version_accessors)

section \<open>The instruction classifier\<close>

text \<open>
  C9. For every instruction, \<^const>\<open>classifyInstruction\<close> returns what the first-match
  scan over the fixed ordered table returns: the label of the first entry whose tag
  predicate holds, or no label when none holds. The table has 15 entries, whose
  predicates test the 15 tags of \<^const>\<open>tableTags\<close> in order. An instruction tagged
  DepositAsset gets the label "Deposit Asset"; an instruction whose tag is not among
  the 15 gets no label. The classifier is a function of the instruction alone: it takes
  no world and returns none, so it has no effect.
\<close>

theorem classifyInstruction_first_match:
  "classifyInstruction instr = firstMatch classificationTable instr
   \<and> length classificationTable = 15
   \<and> map fst classificationTable = map (\<lambda>t i. tag i = t) tableTags
   \<and> (tag instr = ''DepositAsset'' \<longrightarrow> classifyInstruction instr = Some ''Deposit Asset'')
   \<and> (tag instr \<notin> set tableTags \<longrightarrow> classifyInstruction instr = None)"
proof (intro conjI)
  show "classifyInstruction instr = firstMatch classificationTable instr"
    by (simp add: classifyInstruction_def classificationTable_def)
  show "length classificationTable = 15"
    by (simp add: classificationTable_def)
  show "map fst classificationTable = map (\<lambda>t i. tag i = t) tableTags"
    by (simp add: classificationTable_def tableTags_def instruction_predicates fun_eq_iff)
  show "tag instr = ''DepositAsset'' \<longrightarrow> classifyInstruction instr = Some ''Deposit Asset''"
    by (simp add: classifyInstruction_def instruction_predicates)
  show "tag instr \<notin> set tableTags \<longrightarrow> classifyInstruction instr = None"
    by (simp add: classifyInstruction_def instruction_predicates tableTags_def)
qed

theorem classifyInstruction_first_match_witness:
  "classifyInstruction (Instruction ''DepositAsset'' ''{}'') = Some ''Deposit Asset''
   \<and> classifyInstruction (Instruction ''QueryResponse'' ''{}'') = None
   \<and> firstMatch classificationTable (Instruction ''SetTopic'' ''0x00'') = Some ''Set Topic''"
  using classifyInstruction_first_match [of "Instruction ''DepositAsset'' ''{}''"]
    classifyInstruction_first_match [of "Instruction ''QueryResponse'' ''{}''"]
    classifyInstruction_first_match [of "Instruction ''SetTopic'' ''0x00''"]
  by (simp add: tableTags_def classifyInstruction_def instruction_predicates)

section \<open>The type resolver\<close>

text \<open>
  C7, as stated, fails in its last part. When both attempts throw, the line that is
  logged is chosen by the position of the error, not by what the error says: the
  fallback's message is taken whenever it is present. With the same two errors, one
  about the bytes and one about the schema name, the run in which the fallback raises
  the error about the schema name logs that one and drops the primary's error about the
  bytes, and the run with the two errors exchanged logs the other one. Whichever of the
  two errors is the most specific, one of the two runs does not log it.
\<close>

theorem fallback_message_by_position:
  "message enumIndexError \<noteq> message unknownTypeError
   \<and> fst (tryCreateType (throwingProvider enumIndexError unknownTypeError) 0 (callerWorld [9]))
       = None
   \<and> console (snd (tryCreateType (throwingProvider enumIndexError unknownTypeError) 0
         (callerWorld [9])))
       = [''Cannot construct unknown type StagingXcmVersionedXcm'']
   \<and> fst (tryCreateType (throwingProvider unknownTypeError enumIndexError) 0 (callerWorld [9]))
       = None
   \<and> console (snd (tryCreateType (throwingProvider unknownTypeError enumIndexError) 0
         (callerWorld [9])))
       = [''Unable to create Enum via index 9'']"
  by (simp add: tryCreateType_def callCreateType_def consoleError_def failureMessage_def
      enumIndexError_def unknownTypeError_def)

text \<open>
  C7, amended. On the bytes of the buffer it is given, the resolver calls the decode
  capability with the primary schema first; it calls it with the fallback schema exactly
  when the primary attempt threw, and makes no other call. When the primary attempt
  succeeds the result is its message; when only the fallback succeeds the result is the
  fallback's message and nothing is logged. When both throw there is no result, nothing
  is raised, and exactly one line is logged: the message of the fallback's error when it
  has one, whatever the primary's error says; otherwise the message of the primary's
  error when it has one; otherwise the fixed text.
\<close>

theorem tryCreateType_resolution:
  "newCalls w (snd (tryCreateType P r w)) =
      (if isl (createType P ''XcmVersionedXcm'' (cells w r))
       then [(''XcmVersionedXcm'', cells w r), (''StagingXcmVersionedXcm'', cells w r)]
       else [(''XcmVersionedXcm'', cells w r)])
   \<and> (createType P ''XcmVersionedXcm'' (cells w r) = Inr f \<longrightarrow>
        tryCreateType P r w = (Some f, w\<lparr>calls := calls w @ [(''XcmVersionedXcm'', cells w r)]\<rparr>))
   \<and> (createType P ''XcmVersionedXcm'' (cells w r) = Inl e1
        \<and> createType P ''StagingXcmVersionedXcm'' (cells w r) = Inr f \<longrightarrow>
        fst (tryCreateType P r w) = Some f
        \<and> console (snd (tryCreateType P r w)) = console w)
   \<and> (createType P ''XcmVersionedXcm'' (cells w r) = Inl e1
        \<and> createType P ''StagingXcmVersionedXcm'' (cells w r) = Inl e2 \<longrightarrow>
        fst (tryCreateType P r w) = None
        \<and> (message e2 = Some m \<longrightarrow>
             console (snd (tryCreateType P r w)) = console w @ [m])
        \<and> (message e2 = None \<and> message e1 = Some m \<longrightarrow>
             console (snd (tryCreateType P r w)) = console w @ [m])
        \<and> (message e2 = None \<and> message e1 = None \<longrightarrow>
             console (snd (tryCreateType P r w))
               = console w @ [''Failed to decode XcmVersionedXcm'']))"
  by (auto simp add: tryCreateType_def callCreateType_def consoleError_def newCalls_def
      failureMessage_def split: sum.splits)

theorem tryCreateType_resolution_witness:
  "fst (tryCreateType oneByteProvider 0 (callerWorld [7])) = Some (bareV5 [7])
   \<and> newCalls (callerWorld [7]) (snd (tryCreateType oneByteProvider 0 (callerWorld [7])))
       = [(''XcmVersionedXcm'', [7])]
   \<and> fst (tryCreateType stagingProvider 0 (callerWorld [7])) = Some (bareV5 [7])
   \<and> newCalls (callerWorld [7]) (snd (tryCreateType stagingProvider 0 (callerWorld [7])))
       = [(''XcmVersionedXcm'', [7]), (''StagingXcmVersionedXcm'', [7])]
   \<and> fst (tryCreateType stagingProvider 0 (callerWorld [255])) = None
   \<and> console (snd (tryCreateType stagingProvider 0 (callerWorld [255]))) = [''unknown type'']
   \<and> fst (tryCreateType stagingProvider 0 (callerWorld [])) = None
   \<and> console (snd (tryCreateType stagingProvider 0 (callerWorld []))) = [''no bytes'']
   \<and> console (snd (tryCreateType (throwingProvider (Thrown None) (Thrown None)) 0
         (callerWorld [9])))
       = [''Failed to decode XcmVersionedXcm'']"
proof -
  have one: "fst (tryCreateType oneByteProvider 0 (callerWorld [7])) = Some (bareV5 [7])
    \<and> newCalls (callerWorld [7]) (snd (tryCreateType oneByteProvider 0 (callerWorld [7])))
       = [(''XcmVersionedXcm'', [7])]"
    using tryCreateType_resolution [of "callerWorld [7]" oneByteProvider 0 "bareV5 [7]"]
    by (simp add: newCalls_def)
  have two: "fst (tryCreateType stagingProvider 0 (callerWorld [7])) = Some (bareV5 [7])
    \<and> newCalls (callerWorld [7]) (snd (tryCreateType stagingProvider 0 (callerWorld [7])))
       = [(''XcmVersionedXcm'', [7]), (''StagingXcmVersionedXcm'', [7])]"
    using tryCreateType_resolution [of "callerWorld [7]" stagingProvider 0 "bareV5 [7]"
      "Thrown (Some ''unknown type'')"]
    by (simp add: newCalls_def)
  have three: "fst (tryCreateType stagingProvider 0 (callerWorld [255])) = None
    \<and> console (snd (tryCreateType stagingProvider 0 (callerWorld [255]))) = [''unknown type'']"
    using tryCreateType_resolution [of "callerWorld [255]" stagingProvider 0 "bareV5 [255]"
      "Thrown (Some ''unknown type'')" "Thrown None" "''unknown type''"]
    by simp
  have four: "fst (tryCreateType stagingProvider 0 (callerWorld [])) = None
    \<and> console (snd (tryCreateType stagingProvider 0 (callerWorld []))) = [''no bytes'']"
    using tryCreateType_resolution [of "callerWorld []" stagingProvider 0 "bareV5 []"
      "Thrown (Some ''unknown type'')" "Thrown (Some ''no bytes'')" "''no bytes''"]
    by simp
  have five: "console (snd (tryCreateType (throwingProvider (Thrown None) (Thrown None)) 0
         (callerWorld [9])))
       = [''Failed to decode XcmVersionedXcm'']"
    using tryCreateType_resolution [of "callerWorld [9]"
      "throwingProvider (Thrown None) (Thrown None)" 0 "bareV5 [9]"
      "Thrown None" "Thrown None" "[]"]
    by simp
  from one two three four five show ?thesis by simp
qed

section \<open>The fragment splitter\<close>

text \<open>
  C1, as stated, fails on the empty input: a decode capability that reads the whole
  buffer as one message decodes the empty buffer, and the re-encoding of that message is
  the whole (empty) input, yet the loop is never entered and the result is the empty
  list, not a one-element list.
\<close>

theorem single_fragment_empty_input:
  "resolve greedyProvider (cells (callerWorld []) 0) = Some (bareV5 [])
   \<and> toU8a (bareV5 []) = cells (callerWorld []) 0
   \<and> decodeMessageIntoFragmentVec greedyProvider (U8a 0) (callerWorld [])
       = Some (Inr [], callerWorld [])"
  by (simp add: decode_U8a splitLoop_empty)

text \<open>
  C1, amended. For every non-empty input on which the resolver succeeds with a message
  whose re-encoding is the whole input, one execution of the loop body pushes that
  message and binds \<open>remaining\<close> to a new, empty buffer; the loop is left there, so
  the call returns the one-element list of that message, whose re-encoded bytes are the
  bytes of the input.
\<close>

theorem single_fragment_one_iteration:
  assumes "cells w r = b" and "b \<noteq> []" and "resolve P b = Some f" and "toU8a f = b"
  shows "\<exists>w'. loopBody P [] r w = Continue ([f], fresh w, w')
           \<and> cells w' (fresh w) = []
           \<and> splitLoop P [] r w = Some ([f], fresh w, w')
           \<and> decodeMessageIntoFragmentVec P (U8a r) w = Some (Inr [f], w')
           \<and> toU8a f = cells w r"
  using single_fragment_run(1,3) [OF assms, of "[]"] single_fragment_run(2) [OF assms] assms
  by (intro exI [of _ "snd (u8aSlice r (length b) (snd (tryCreateType P r w)))"])
     (simp add: decode_U8a)

theorem single_fragment_one_iteration_witness:
  "cells (callerWorld [7]) 0 = [7] \<and> resolve stagingProvider [7] = Some (bareV5 [7])
   \<and> toU8a (bareV5 [7]) = [7]
   \<and> (\<exists>w'. cells w' (fresh (callerWorld [7])) = []
         \<and> decodeMessageIntoFragmentVec stagingProvider (U8a 0) (callerWorld [7])
             = Some (Inr [bareV5 [7]], w'))"
proof -
  have "\<exists>w'. loopBody stagingProvider [] 0 (callerWorld [7])
             = Continue ([bareV5 [7]], fresh (callerWorld [7]), w')
           \<and> cells w' (fresh (callerWorld [7])) = []
           \<and> splitLoop stagingProvider [] 0 (callerWorld [7])
             = Some ([bareV5 [7]], fresh (callerWorld [7]), w')
           \<and> decodeMessageIntoFragmentVec stagingProvider (U8a 0) (callerWorld [7])
             = Some (Inr [bareV5 [7]], w')
           \<and> toU8a (bareV5 [7]) = cells (callerWorld [7]) 0"
    by (rule single_fragment_one_iteration [of "callerWorld [7]" 0 "[7]" stagingProvider])
       simp_all
  then show ?thesis by auto
qed

text \<open>
  C2, as stated, fails in two ways. With a decode capability that reads the whole buffer
  as one message, the one-byte buffers 1 and 2 are each a valid fragment that round-trips,
  but their concatenation decodes to one message, not two. And the empty buffer is a valid
  fragment of that capability that round-trips, but the concatenation of 1 with it decodes
  to one message.
\<close>

theorem concatenation_without_delimiting:
  "resolve greedyProvider [1] = Some (bareV5 [1]) \<and> toU8a (bareV5 [1]) = [1]
   \<and> resolve greedyProvider [2] = Some (bareV5 [2]) \<and> toU8a (bareV5 [2]) = [2]
   \<and> (\<exists>w'. decodeMessageIntoFragmentVec greedyProvider (U8a 0) (callerWorld ([1] @ [2]))
               = Some (Inr [bareV5 [1, 2]], w'))
   \<and> resolve greedyProvider [] = Some (bareV5 []) \<and> toU8a (bareV5 []) = []
   \<and> (\<exists>w'. decodeMessageIntoFragmentVec greedyProvider (U8a 0) (callerWorld ([1] @ []))
               = Some (Inr [bareV5 [1]], w'))"
  using single_fragment_run(3) [of "callerWorld [1, 2]" 0 "[1, 2]" greedyProvider "bareV5 [1, 2]" "[]"]
    single_fragment_run(3) [of "callerWorld [1]" 0 "[1]" greedyProvider "bareV5 [1]" "[]"]
  by (simp add: decode_U8a)

text \<open>
  C2, amended. Let \<open>a\<close> and \<open>b\<close> be non-empty byte sequences, each resolved standalone
  to a message that re-encodes to it, and let the resolver yield on \<open>a @ b\<close> what it
  yields on \<open>a\<close> (the encoding is self-delimiting). Then decoding \<open>a @ b\<close> returns
  exactly two messages, the one of \<open>a\<close> followed by the one of \<open>b\<close>, and each is the
  message that decoding its half standalone returns.
\<close>

theorem concatenation_law:
  assumes "cells w r = a @ b" and "a \<noteq> []" and "b \<noteq> []"
    and "resolve P a = Some fa" and "toU8a fa = a"
    and "resolve P b = Some fb" and "toU8a fb = b"
    and "resolve P (a @ b) = resolve P a"
    and "cells wa ra = a" and "cells wb rb = b"
  shows "\<exists>w' wa' wb'.
           decodeMessageIntoFragmentVec P (U8a r) w = Some (Inr [fa, fb], w')
           \<and> decodeMessageIntoFragmentVec P (U8a ra) wa = Some (Inr [fa], wa')
           \<and> decodeMessageIntoFragmentVec P (U8a rb) wb = Some (Inr [fb], wb')"
proof -
  from assms have "resolve P (a @ b) = Some fa" by simp
  from two_fragment_run [OF assms(1-3) this assms(5-7), of "[]"]
  obtain w' where "decodeMessageIntoFragmentVec P (U8a r) w = Some (Inr [fa, fb], w')"
    by (auto simp add: decode_U8a)
  moreover from single_fragment_run(3) [OF assms(9) assms(2) assms(4) assms(5), of "[]"]
  obtain wa' where "decodeMessageIntoFragmentVec P (U8a ra) wa = Some (Inr [fa], wa')"
    by (auto simp add: decode_U8a)
  moreover from single_fragment_run(3) [OF assms(10) assms(3) assms(6) assms(7), of "[]"]
  obtain wb' where "decodeMessageIntoFragmentVec P (U8a rb) wb = Some (Inr [fb], wb')"
    by (auto simp add: decode_U8a)
  ultimately show ?thesis by blast
qed

theorem concatenation_law_witness:
  "resolve oneByteProvider [1] = Some (bareV5 [1]) \<and> toU8a (bareV5 [1]) = [1]
   \<and> resolve oneByteProvider [2] = Some (bareV5 [2]) \<and> toU8a (bareV5 [2]) = [2]
   \<and> resolve oneByteProvider ([1] @ [2]) = resolve oneByteProvider [1]
   \<and> (\<exists>w' wa' wb'.
        decodeMessageIntoFragmentVec oneByteProvider (U8a 0) (callerWorld [1, 2])
          = Some (Inr [bareV5 [1], bareV5 [2]], w')
        \<and> decodeMessageIntoFragmentVec oneByteProvider (U8a 0) (callerWorld [1])
          = Some (Inr [bareV5 [1]], wa')
        \<and> decodeMessageIntoFragmentVec oneByteProvider (U8a 0) (callerWorld [2])
          = Some (Inr [bareV5 [2]], wb'))"
proof -
  have "\<exists>w' wa' wb'.
        decodeMessageIntoFragmentVec oneByteProvider (U8a 0) (callerWorld [1, 2])
          = Some (Inr [bareV5 [1], bareV5 [2]], w')
        \<and> decodeMessageIntoFragmentVec oneByteProvider (U8a 0) (callerWorld [1])
          = Some (Inr [bareV5 [1]], wa')
        \<and> decodeMessageIntoFragmentVec oneByteProvider (U8a 0) (callerWorld [2])
          = Some (Inr [bareV5 [2]], wb')"
    by (rule concatenation_law [of "callerWorld [1, 2]" 0 "[1]" "[2]" oneByteProvider
          "bareV5 [1]" "bareV5 [2]" "callerWorld [1]" 0 "callerWorld [2]" 0])
       simp_all
  then show ?thesis by simp
qed

text \<open>
  C5. A string input is accepted (converted to bytes) exactly when it is in the strict
  hex format: after an optional \<^verbatim>\<open>0x\<close> prefix all characters are hex digits and their
  number is even. An odd digit count and a character that is no hex digit are violations.
  Every violation makes \<^verbatim>\<open>hexToU8aSafe\<close> throw the input format error, and the call
  of \<^verbatim>\<open>decodeMessageIntoFragmentVec\<close> ends with that error in the world it started in:
  no call to the decode capability has been made. An accepted string is decoded as the
  new buffer of its bytes.
\<close>

theorem hex_input_gate:
  "(isHex input \<longleftrightarrow> (\<exists>bs. hexToU8aSafe input = Inr bs))
   \<and> (isHex input \<longleftrightarrow>
        list_all isHexDigit (digitsOf input) \<and> even (length (digitsOf input)))
   \<and> (odd (length (digitsOf input)) \<longrightarrow> \<not> isHex input)
   \<and> ((\<exists>c \<in> set (digitsOf input). \<not> isHexDigit c) \<longrightarrow> \<not> isHex input)
   \<and> (\<not> isHex input \<longrightarrow>
        hexToU8aSafe input = Inl (Error ''Expected hex string for message input'')
        \<and> decodeMessageIntoFragmentVec P (Str input) w
            = Some (Inl (Error ''Expected hex string for message input''), w))
   \<and> (isHex input \<longrightarrow>
        decodeMessageIntoFragmentVec P (Str input) w
          = decodeMessageIntoFragmentVec P (U8a (fresh w)) (snd (alloc (hexToU8a input) w)))"
proof (intro conjI)
  show "isHex input \<longleftrightarrow> (\<exists>bs. hexToU8aSafe input = Inr bs)"
    by (simp add: hexToU8aSafe_def)
  show "isHex input \<longleftrightarrow>
        list_all isHexDigit (digitsOf input) \<and> even (length (digitsOf input))"
    by (simp add: isHex_def)
  show "odd (length (digitsOf input)) \<longrightarrow> \<not> isHex input"
    by (simp add: isHex_def)
  show "(\<exists>c \<in> set (digitsOf input). \<not> isHexDigit c) \<longrightarrow> \<not> isHex input"
    by (auto simp add: isHex_def list_all_iff)
  show "\<not> isHex input \<longrightarrow>
        hexToU8aSafe input = Inl (Error ''Expected hex string for message input'')
        \<and> decodeMessageIntoFragmentVec P (Str input) w
            = Some (Inl (Error ''Expected hex string for message input''), w)"
    by (simp add: hexToU8aSafe_def decodeMessageIntoFragmentVec_def)
  show "isHex input \<longrightarrow>
        decodeMessageIntoFragmentVec P (Str input) w
          = decodeMessageIntoFragmentVec P (U8a (fresh w)) (snd (alloc (hexToU8a input) w))"
    by (simp add: hexToU8aSafe_def decodeMessageIntoFragmentVec_def alloc_def)
qed

theorem hex_input_gate_witness:
  "odd (length (digitsOf ''0x123'')) \<and> \<not> isHex ''0x123''
   \<and> decodeMessageIntoFragmentVec oneByteProvider (Str ''0x123'') (callerWorld [])
       = Some (Inl (Error ''Expected hex string for message input''), callerWorld [])
   \<and> (\<exists>c \<in> set (digitsOf ''0x12zz''). \<not> isHexDigit c) \<and> \<not> isHex ''0x12zz''
   \<and> isHex ''0x0102'' \<and> (\<exists>bs. hexToU8aSafe ''0x0102'' = Inr bs)
   \<and> decodeMessageIntoFragmentVec oneByteProvider (Str ''0x0102'') (callerWorld [])
       = decodeMessageIntoFragmentVec oneByteProvider (U8a 1)
           (snd (alloc (hexToU8a ''0x0102'') (callerWorld [])))"
proof -
  have odd: "odd (length (digitsOf ''0x123''))" by simp
  have bad: "\<exists>c \<in> set (digitsOf ''0x12zz''). \<not> isHexDigit c"
    by (simp add: isHexDigit_def)
  from hex_input_gate [of "''0x123''" oneByteProvider "callerWorld []"] odd
  have "\<not> isHex ''0x123''
    \<and> decodeMessageIntoFragmentVec oneByteProvider (Str ''0x123'') (callerWorld [])
       = Some (Inl (Error ''Expected hex string for message input''), callerWorld [])"
    by blast
  moreover from hex_input_gate [of "''0x12zz''" oneByteProvider "callerWorld []"] bad
  have "\<not> isHex ''0x12zz''" by blast
  moreover have ok: "isHex ''0x0102''" by (simp add: isHex_def isHexDigit_def)
  moreover from hex_input_gate [of "''0x0102''" oneByteProvider "callerWorld []"] ok
  have "(\<exists>bs. hexToU8aSafe ''0x0102'' = Inr bs)
    \<and> decodeMessageIntoFragmentVec oneByteProvider (Str ''0x0102'') (callerWorld [])
       = decodeMessageIntoFragmentVec oneByteProvider (U8a 1)
           (snd (alloc (hexToU8a ''0x0102'') (callerWorld [])))"
    by simp
  ultimately show ?thesis using odd bad by blast
qed







text \<open>
  C10. When the call on a buffer of the caller returns, that buffer, and every other
  buffer that existed before the call, holds the bytes it held before: the code only
  reads buffers and creates new ones (\<^verbatim>\<open>slice\<close> copies), and the decode capability has
  no effect on the world.
\<close>

theorem caller_buffer_unchanged:
  assumes "decodeMessageIntoFragmentVec P (U8a r) w = Some (res, w')" and "r < fresh w"
  shows "cells w' r = cells w r \<and> (\<forall>q < fresh w. cells w' q = cells w q)"
proof -
  from assms(1) obtain fs' r' where "splitLoop P [] r w = Some (fs', r', w')"
    by (auto simp add: decode_U8a split: option.splits)
  from splitLoop_frame [OF this] assms(2) show ?thesis by simp
qed

theorem caller_buffer_unchanged_witness:
  "0 < fresh (callerWorld [1, 2])
   \<and> (\<exists>res w'. decodeMessageIntoFragmentVec oneByteProvider (U8a 0) (callerWorld [1, 2])
          = Some (res, w')
        \<and> cells w' 0 = [1, 2])"
proof -
  from splitLoop_terminates [OF makesProgress_oneByteProvider, of "[]" 0 "callerWorld [1, 2]"]
  obtain res w' where ret:
    "decodeMessageIntoFragmentVec oneByteProvider (U8a 0) (callerWorld [1, 2]) = Some (res, w')"
    by (auto simp add: decode_U8a)
  from caller_buffer_unchanged [OF this] have "cells w' 0 = [1, 2]"
    by simp
  with ret show ?thesis by auto
qed

end
